theory Spec2Isabelle
  imports Complex_Main
begin

section \<open>Data model of the ingestion notebook\<close>

text \<open>
  The development embeds the two functions of
  \<^verbatim>\<open>exploring-qdrant/02-setting-up-qdrant.ipynb\<close> that make up the
  document-to-point ingestion pipeline: \<^verbatim>\<open>get_text_embedding\<close> (the Embedder) and
  \<^verbatim>\<open>add_data_to_collection\<close> (the Point Builder and the call of the Writer).

  Python values that flow through the pipeline are JSON-like; a \<^verbatim>\<open>dict\<close> is an
  association list, which keeps the insertion order of the dict literal.
\<close>

datatype pyval =
    PNone
  | PStr string
  | PInt int
  | PList "pyval list"
  | PDict "(string \<times> pyval) list"

type_synonym pydict = "(string \<times> pyval) list"

text \<open>An embedding is the list of floats the provider returns; no arithmetic is done on it.\<close>

type_synonym embedding = "real list"

text \<open>\<^verbatim>\<open>d.get(k)\<close>: the value under \<open>k\<close>, and \<^verbatim>\<open>None\<close> when the key is absent.\<close>

definition dict_get :: "pydict \<Rightarrow> string \<Rightarrow> pyval" where
  "dict_get d k = (case map_of d k of None \<Rightarrow> PNone | Some v \<Rightarrow> v)"

text \<open>
  \<^verbatim>\<open>PointStruct(id=text_id, vector=vector_dict, payload=payload)\<close>. The field
  \<^verbatim>\<open>id\<close> is called \<open>point_id\<close> here, since \<open>id\<close> is the identity function of HOL.
  The constructor checks the types of its arguments (a string identifier, lists of floats
  under string keys, a dict payload); the types of the model are those, so it does not fail.
\<close>

record PointStruct =
  point_id :: string
  vector :: "(string \<times> embedding) list"
  payload :: pydict

text \<open>\<^verbatim>\<open>qdrant_client.http.models.UpdateStatus\<close> and the \<^verbatim>\<open>UpdateResult\<close> that upsert returns.\<close>

datatype UpdateStatus = ACKNOWLEDGED | COMPLETED | CLOCK_REJECTED

record UpdateResult =
  operation_id :: "int option"
  status :: UpdateStatus

text \<open>Exceptions are values; every raise of the source is an \<open>Inl\<close> branch of the model.\<close>

datatype exn =
    OpenAIError string
  | AttributeError string
  | IndexError string
  | Exception string

subsection \<open>The outside world\<close>

text \<open>
  The identifier generator, the embedding provider and the storage service are outside the
  notebook. Each is a function on an abstract world state \<open>'w\<close>, so that a provider that
  starts to fail after some calls (a rate limit) or a generator that never repeats itself
  are instances. Every call that crosses the boundary is appended to a call log together
  with what it returned; \<^verbatim>\<open>print\<close> is logged the same way.
\<close>

datatype call =
    Uuid4 string
  | EmbeddingsCreate pyval string "exn + embedding list"
  | Upsert string bool "PointStruct list" "exn + UpdateResult"
  | Print string

record 'w state =
  world :: 'w
  calls :: "call list"

text \<open>
  The client \<^verbatim>\<open>OpenAI()\<close>: \<open>embeddings_create\<close> is
  \<^verbatim>\<open>openai_client.embeddings.create(input=text, model=model)\<close>, whose answer is reduced to
  the list of the \<^verbatim>\<open>.embedding\<close> of each element of \<^verbatim>\<open>.data\<close>;
  \<open>has_OpenAIError\<close> tells whether the attribute lookup
  \<^verbatim>\<open>openai_client.OpenAIError\<close> of the except clause succeeds on the client object.
\<close>

record 'w OpenAI =
  embeddings_create :: "'w \<Rightarrow> pyval \<Rightarrow> string \<Rightarrow> (exn + embedding list) \<times> 'w"
  has_OpenAIError :: bool

text \<open>
  The client \<^verbatim>\<open>QdrantClient(...)\<close>: \<open>upsert\<close> is
  \<^verbatim>\<open>qdrant_client.upsert(collection_name=..., wait=..., points=...)\<close>.
\<close>

record 'w QdrantClient =
  upsert :: "'w \<Rightarrow> string \<Rightarrow> bool \<Rightarrow> PointStruct list \<Rightarrow> (exn + UpdateResult) \<times> 'w"

text \<open>
  The globals of the notebook that the two functions read: \<open>uuid4\<close> is
  \<^verbatim>\<open>str(uuid.uuid4())\<close>, \<open>openai_client\<close> the module-level client that
  \<^verbatim>\<open>get_text_embedding\<close> takes as its default argument.
\<close>

record 'w globals =
  uuid4 :: "'w \<Rightarrow> string \<times> 'w"
  openai_client :: "'w OpenAI"

section \<open>The Embedder\<close>

definition default_model :: string where
  "default_model = ''text-embedding-3-large''"

text \<open>
  \<^verbatim>\<open>
  def get_text_embedding(text, openai_client=openai_client, model="text-embedding-3-large"):
      try:
          embedding = openai_client.embeddings.create(input=text, model=model).data[0].embedding
          return embedding
      except openai_client.OpenAIError as e:
          raise e
  \<close>
  The body of the try block fails when the call raises, or with an IndexError when
  \<^verbatim>\<open>.data\<close> is empty. Any exception reaches the except clause, whose class expression is
  evaluated then: if the client object has no attribute \<^verbatim>\<open>OpenAIError\<close> that lookup
  raises AttributeError; otherwise the exception is re-raised (when it is an OpenAIError)
  or propagates unchanged (when it is not): the same exception either way.
\<close>

definition try_body :: "exn + embedding list \<Rightarrow> exn + embedding" where
  "try_body r =
     (case r of
        Inl e \<Rightarrow> Inl e
      | Inr data \<Rightarrow>
          (case data of
             [] \<Rightarrow> Inl (IndexError ''list index out of range'')
           | d # _ \<Rightarrow> Inr d))"

definition get_text_embedding ::
  "pyval \<Rightarrow> 'w OpenAI \<Rightarrow> string \<Rightarrow> 'w state \<Rightarrow> (exn + embedding) \<times> 'w state" where
  "get_text_embedding text client model s =
     (let (r, w') = embeddings_create client (world s) text model;
          s' = \<lparr>world = w', calls = calls s @ [EmbeddingsCreate text model r]\<rparr>
      in case try_body r of
           Inr embedding \<Rightarrow> (Inr embedding, s')
         | Inl e \<Rightarrow>
             (if has_OpenAIError client then (Inl e, s')
              else (Inl (AttributeError ''OpenAIError''), s')))"

section \<open>The Point Builder and the call of the Writer\<close>

text \<open>
  The body of the \<^verbatim>\<open>for item in data\<close> loop of \<^verbatim>\<open>add_data_to_collection\<close>:
  \<^verbatim>\<open>
  text_id = str(uuid.uuid4())
  summary = item.get("summary"); chunk = item.get("chunk"); title = item.get("title")
  source = item.get("source"); authors = item.get("authors")
  summary_vector = get_text_embedding(summary)
  chunk_vector = get_text_embedding(chunk)
  vector_dict = {"summary": summary_vector, "chunk": chunk_vector}
  payload = {"text_id": text_id, "title": title, "source": source,
             "authors": authors, "chunk": chunk, "summary": summary}
  point = PointStruct(id=text_id, vector=vector_dict, payload=payload)
  \<close>
\<close>

definition loop_body :: "'w globals \<Rightarrow> pydict \<Rightarrow> 'w state \<Rightarrow> (exn + PointStruct) \<times> 'w state" where
  "loop_body G item s0 =
     (let (text_id, w1) = uuid4 G (world s0);
          s1 = \<lparr>world = w1, calls = calls s0 @ [Uuid4 text_id]\<rparr>;
          summary = dict_get item ''summary'';
          chunk = dict_get item ''chunk'';
          title = dict_get item ''title'';
          source = dict_get item ''source'';
          authors = dict_get item ''authors''
      in case get_text_embedding summary (openai_client G) default_model s1 of
           (Inl e, s2) \<Rightarrow> (Inl e, s2)
         | (Inr summary_vector, s2) \<Rightarrow>
             (case get_text_embedding chunk (openai_client G) default_model s2 of
                (Inl e, s3) \<Rightarrow> (Inl e, s3)
              | (Inr chunk_vector, s3) \<Rightarrow>
                  (let vector_dict = [(''summary'', summary_vector), (''chunk'', chunk_vector)];
                       payload_dict =
                         [(''text_id'', PStr text_id),
                          (''title'', title),
                          (''source'', source),
                          (''authors'', authors),
                          (''chunk'', chunk),
                          (''summary'', summary)]
                   in (Inr \<lparr>point_id = text_id, vector = vector_dict, payload = payload_dict\<rparr>,
                       s3))))"

text \<open>
  The loop: \<open>points\<close> is the list built so far, each new point is appended; an exception
  in the body leaves the loop and the function.
\<close>

fun for_loop ::
  "'w globals \<Rightarrow> pydict list \<Rightarrow> PointStruct list \<Rightarrow> 'w state \<Rightarrow> (exn + PointStruct list) \<times> 'w state"
where
  "for_loop G [] points s = (Inr points, s)"
| "for_loop G (item # data) points s =
     (case loop_body G item s of
        (Inl e, s') \<Rightarrow> (Inl e, s')
      | (Inr point, s') \<Rightarrow> for_loop G data (points @ [point]) s')"

text \<open>
  \<^verbatim>\<open>
  operation_info = qdrant_client.upsert(collection_name=collection_name, wait=True, points=points)
  if operation_info.status == UpdateStatus.COMPLETED:
      print("Data inserted successfully!")
  else:
      print("Failed to insert data")
  \<close>
  The function returns \<^verbatim>\<open>None\<close> on both branches: the result \<open>Inr ()\<close>.
\<close>

definition add_data_to_collection ::
  "'w globals \<Rightarrow> pydict list \<Rightarrow> 'w QdrantClient \<Rightarrow> string \<Rightarrow> 'w state \<Rightarrow> (exn + unit) \<times> 'w state"
where
  "add_data_to_collection G data qdrant_client collection_name s =
     (case for_loop G data [] s of
        (Inl e, s1) \<Rightarrow> (Inl e, s1)
      | (Inr points, s1) \<Rightarrow>
          (let (r, w2) = upsert qdrant_client (world s1) collection_name True points;
               s2 = \<lparr>world = w2, calls = calls s1 @ [Upsert collection_name True points r]\<rparr>
           in case r of
                Inl e \<Rightarrow> (Inl e, s2)
              | Inr operation_info \<Rightarrow>
                  (if status operation_info = COMPLETED
                   then (Inr (), s2\<lparr>calls := calls s2 @ [Print ''Data inserted successfully!'']\<rparr>)
                   else (Inr (), s2\<lparr>calls := calls s2 @ [Print ''Failed to insert data'']\<rparr>))))"

section \<open>Reading the call log\<close>

text \<open>The calls a run has added to the log: those of \<open>s'\<close> that were not yet in \<open>s\<close>.\<close>

definition new_calls :: "'w state \<Rightarrow> 'w state \<Rightarrow> call list" where
  "new_calls s s' = drop (length (calls s)) (calls s')"

text \<open>
  An embedding call has failed when \<^verbatim>\<open>get_text_embedding\<close> raises on its answer: the
  provider raised, or answered with no data.
\<close>

fun embed_failed :: "call \<Rightarrow> bool" where
  "embed_failed (EmbeddingsCreate text model r) = isl (try_body r)"
| "embed_failed _ = False"

fun embed_texts :: "call list \<Rightarrow> pyval list" where
  "embed_texts [] = []"
| "embed_texts (EmbeddingsCreate text model r # cs) = text # embed_texts cs"
| "embed_texts (_ # cs) = embed_texts cs"

fun uuids :: "call list \<Rightarrow> string list" where
  "uuids [] = []"
| "uuids (Uuid4 u # cs) = u # uuids cs"
| "uuids (_ # cs) = uuids cs"

fun upsert_batches :: "call list \<Rightarrow> PointStruct list list" where
  "upsert_batches [] = []"
| "upsert_batches (Upsert name wait points r # cs) = points # upsert_batches cs"
| "upsert_batches (_ # cs) = upsert_batches cs"

fun upsert_replies :: "call list \<Rightarrow> (exn + UpdateResult) list" where
  "upsert_replies [] = []"
| "upsert_replies (Upsert name wait points r # cs) = r # upsert_replies cs"
| "upsert_replies (_ # cs) = upsert_replies cs"

fun printed :: "call list \<Rightarrow> string list" where
  "printed [] = []"
| "printed (Print m # cs) = m # printed cs"
| "printed (_ # cs) = printed cs"

text \<open>The point the loop body assembles from an identifier, a record and two embeddings.\<close>

definition assembled :: "string \<Rightarrow> pydict \<Rightarrow> embedding \<Rightarrow> embedding \<Rightarrow> PointStruct" where
  "assembled text_id item summary_vector chunk_vector =
     \<lparr>point_id = text_id,
      vector = [(''summary'', summary_vector), (''chunk'', chunk_vector)],
      payload =
        [(''text_id'', PStr text_id),
         (''title'', dict_get item ''title''),
         (''source'', dict_get item ''source''),
         (''authors'', dict_get item ''authors''),
         (''chunk'', dict_get item ''chunk''),
         (''summary'', dict_get item ''summary'')]\<rparr>"

text \<open>The texts the loop embeds for a list of records: summary, then chunk, record by record.\<close>

definition slot_texts :: "pydict \<Rightarrow> pyval list" where
  "slot_texts item = [dict_get item ''summary'', dict_get item ''chunk'']"

section \<open>The storage service\<close>

text \<open>
  Modelled from the spec: the collection held by the vector storage service, which is not
  part of the notebook. A collection holds points whose identifiers are unique within it.
\<close>

type_synonym collection = "PointStruct list"

text \<open>
  Modelled from the spec: upsert of one point. If the identifier already exists in the
  collection, the stored point (vectors and payload) is replaced by the submitted one;
  otherwise the point is added.
\<close>

fun put_point :: "PointStruct \<Rightarrow> collection \<Rightarrow> collection" where
  "put_point p [] = [p]"
| "put_point p (q # c) = (if point_id q = point_id p then p # c else q # put_point p c)"

text \<open>Modelled from the spec: upsert of an ordered batch of points, one after the other.\<close>

definition upsert_points :: "PointStruct list \<Rightarrow> collection \<Rightarrow> collection" where
  "upsert_points ps c = fold put_point ps c"

text \<open>Modelled from the spec: the point count reported by \<^verbatim>\<open>getCollection\<close>.\<close>

definition points_count :: "collection \<Rightarrow> nat" where
  "points_count c = length c"

text \<open>Modelled from the spec: the point stored under an identifier, if any.\<close>

definition retrieve :: "collection \<Rightarrow> string \<Rightarrow> PointStruct option" where
  "retrieve c i = find (\<lambda>q. point_id q = i) c"

section \<open>The embedding provider's contract\<close>

text \<open>
  Modelled from the spec: the dimensionality the provider documents per model. The
  notebook names one model, \<^verbatim>\<open>text-embedding-3-large\<close>, with 3072 dimensions.
\<close>

definition declared_dimensionality :: "string \<Rightarrow> nat option" where
  "declared_dimensionality model =
     (if model = ''text-embedding-3-large'' then Some 3072 else None)"

text \<open>
  Modelled from the spec: the provider's guarantee, for a table \<open>declared\<close> of the
  dimensionality documented per model. Whenever \<^verbatim>\<open>createEmbedding\<close> answers a non-empty
  text, the model is one of the table and every vector of the answer has the model's
  declared dimensionality. The provider is a remote service; the notebook holds none of
  its code.
\<close>

definition provider_contract :: "(string \<Rightarrow> nat option) \<Rightarrow> 'w OpenAI \<Rightarrow> bool" where
  "provider_contract declared client =
     (\<forall>w t model data w'.
        t \<noteq> [] \<and> embeddings_create client w (PStr t) model = (Inr data, w') \<longrightarrow>
        (\<exists>n. declared model = Some n \<and> list_all (\<lambda>v. length v = n) data))"

section \<open>A simulated world\<close>

text \<open>
  A concrete world on which the pipeline can be run: the identifiers the generator will
  hand out, the texts the provider refuses, the status the storage service replies with,
  and the collection it holds.
\<close>

record sim =
  ids :: "string list"
  refused :: "pyval list"
  reply :: UpdateStatus
  stored :: collection

definition sim_uuid4 :: "sim \<Rightarrow> string \<times> sim" where
  "sim_uuid4 w = (case ids w of [] \<Rightarrow> ([], w) | u # us \<Rightarrow> (u, w\<lparr>ids := us\<rparr>))"

definition sim_embedding :: "pyval \<Rightarrow> embedding" where
  "sim_embedding text = (case text of PStr t \<Rightarrow> [real (length t), 1] | _ \<Rightarrow> [0, 0])"

definition sim_create :: "sim \<Rightarrow> pyval \<Rightarrow> string \<Rightarrow> (exn + embedding list) \<times> sim" where
  "sim_create w text model =
     (if text \<in> set (refused w) then (Inl (OpenAIError ''refused''), w)
      else (Inr [sim_embedding text], w))"

definition sim_upsert ::
  "sim \<Rightarrow> string \<Rightarrow> bool \<Rightarrow> PointStruct list \<Rightarrow> (exn + UpdateResult) \<times> sim" where
  "sim_upsert w name wait points =
     (Inr \<lparr>operation_id = Some 0, status = reply w\<rparr>,
      w\<lparr>stored := upsert_points points (stored w)\<rparr>)"

definition sim_globals :: "sim globals" where
  "sim_globals =
     \<lparr>uuid4 = sim_uuid4,
      openai_client = \<lparr>embeddings_create = sim_create, has_OpenAIError = True\<rparr>\<rparr>"

definition sim_qdrant :: "sim QdrantClient" where
  "sim_qdrant = \<lparr>upsert = sim_upsert\<rparr>"

definition sim_start :: "string list \<Rightarrow> pyval list \<Rightarrow> UpdateStatus \<Rightarrow> sim state" where
  "sim_start us rs st =
     \<lparr>world = \<lparr>ids = us, refused = rs, reply = st, stored = []\<rparr>, calls = []\<rparr>"

text \<open>A provider that answers every text with a vector of 3072 zeros for the large model.\<close>

definition large_client :: "unit OpenAI" where
  "large_client =
     \<lparr>embeddings_create =
        (\<lambda>w text model.
           if model = ''text-embedding-3-large'' then (Inr [replicate 3072 0], w)
           else (Inl (OpenAIError ''unknown model''), w)),
      has_OpenAIError = True\<rparr>"

text \<open>
  Three records: a complete one (with further metadata), one without a title, and one
  without a summary.
\<close>

definition record_full :: pydict where
  "record_full =
     [(''doi'', PStr ''2210.02406''),
      (''chunk'', PStr ''Figure 1''),
      (''title'', PStr ''Decomposed Prompting''),
      (''summary'', PStr ''Few-shot prompting''),
      (''source'', PStr ''http://arxiv.org/pdf/2210.02406''),
      (''authors'', PList [PStr ''Tushar Khot'', PStr ''Harsh Trivedi'']),
      (''categories'', PList [PStr ''cs.CL'']),
      (''published'', PStr ''20221005'')]"

definition record_untitled :: pydict where
  "record_untitled =
     [(''chunk'', PStr ''Figure 1''),
      (''summary'', PStr ''Few-shot prompting''),
      (''source'', PStr ''http://arxiv.org/pdf/2210.02406''),
      (''authors'', PList [PStr ''Tushar Khot''])]"

definition record_unsummarised :: pydict where
  "record_unsummarised =
     [(''chunk'', PStr ''Figure 1''),
      (''title'', PStr ''Decomposed Prompting''),
      (''source'', PStr ''http://arxiv.org/pdf/2210.02406''),
      (''authors'', PList [PStr ''Tushar Khot''])]"

text \<open>
  Ingesting the same record twice, in a world whose generator hands out \<open>u1\<close>, then
  \<open>u2\<close>: the state after the first run, and the state after the second.
\<close>

definition first_run :: "sim state" where
  "first_run =
     snd (add_data_to_collection sim_globals [record_full] sim_qdrant ''arxiv_chunks''
            (sim_start [''u1'', ''u2''] [] COMPLETED))"

definition second_run :: "sim state" where
  "second_run =
     snd (add_data_to_collection sim_globals [record_full] sim_qdrant ''arxiv_chunks'' first_run)"

text \<open>
  Three points for the storage service: one stored under \<open>u1\<close>, one stored under
  \<open>u0\<close>, and one submitted under \<open>u1\<close> with other vectors and another payload.
\<close>

definition stored_point :: PointStruct where
  "stored_point =
     \<lparr>point_id = ''u1'', vector = [(''summary'', [1, 2]), (''chunk'', [3, 4])],
      payload = [(''text_id'', PStr ''u1''), (''title'', PStr ''old''), (''note'', PStr ''kept?'')]\<rparr>"

definition other_point :: PointStruct where
  "other_point =
     \<lparr>point_id = ''u0'', vector = [(''summary'', [0, 0]), (''chunk'', [0, 0])],
      payload = [(''text_id'', PStr ''u0'')]\<rparr>"

definition submitted_point :: PointStruct where
  "submitted_point =
     \<lparr>point_id = ''u1'', vector = [(''summary'', [5, 6]), (''chunk'', [7, 8])],
      payload = [(''text_id'', PStr ''u1''), (''title'', PStr ''new'')]\<rparr>"

section \<open>Auxiliary notions for the statements\<close>

text \<open>A point is built from a record when it is the assembly of that record with two embeddings.\<close>

definition built_from :: "pydict \<Rightarrow> PointStruct \<Rightarrow> bool" where
  "built_from item p = (\<exists>v1 v2. p = assembled (point_id p) item v1 v2)"

text \<open>What the function prints after the reply of upsert: nothing if upsert raised.\<close>

definition status_message :: "exn + UpdateResult \<Rightarrow> call list" where
  "status_message rep =
     (case rep of
        Inl e \<Rightarrow> []
      | Inr info \<Rightarrow>
          [Print (if status info = COMPLETED then ''Data inserted successfully!''
                  else ''Failed to insert data'')])"

section \<open>Lemmas on the call log and the loop\<close>

lemmas sim_defs =
  add_data_to_collection_def loop_body_def get_text_embedding_def try_body_def
  sim_globals_def sim_qdrant_def sim_start_def sim_uuid4_def sim_create_def sim_upsert_def
  sim_embedding_def record_untitled_def record_full_def record_unsummarised_def
  dict_get_def default_model_def upsert_points_def new_calls_def Let_def

lemma embed_texts_append [simp]: "embed_texts (xs @ ys) = embed_texts xs @ embed_texts ys"
  by (induction xs rule: embed_texts.induct) simp_all

lemma uuids_append [simp]: "uuids (xs @ ys) = uuids xs @ uuids ys"
  by (induction xs rule: uuids.induct) simp_all

lemma upsert_batches_append [simp]:
  "upsert_batches (xs @ ys) = upsert_batches xs @ upsert_batches ys"
  by (induction xs rule: upsert_batches.induct) simp_all

lemma upsert_replies_append [simp]:
  "upsert_replies (xs @ ys) = upsert_replies xs @ upsert_replies ys"
  by (induction xs rule: upsert_replies.induct) simp_all

lemma printed_append [simp]: "printed (xs @ ys) = printed xs @ printed ys"
  by (induction xs rule: printed.induct) simp_all

lemma new_calls_append: "calls s' = calls s @ cs \<Longrightarrow> new_calls s s' = cs"
  by (simp add: new_calls_def)

lemma loop_body_Inr:
  assumes "loop_body G item s = (Inr p, s')"
  shows "\<exists>a1 a2 v1 v2.
     calls s' = calls s @
       [Uuid4 (point_id p),
        EmbeddingsCreate (dict_get item ''summary'') default_model a1,
        EmbeddingsCreate (dict_get item ''chunk'') default_model a2] \<and>
     try_body a1 = Inr v1 \<and> try_body a2 = Inr v2 \<and>
     point_id p = fst (uuid4 G (world s)) \<and>
     p = assembled (point_id p) item v1 v2"
  using assms
  by (auto simp: loop_body_def get_text_embedding_def assembled_def Let_def
      split: prod.splits sum.splits if_splits)

lemma loop_body_Inl:
  assumes "loop_body G item s = (Inl e, s')"
  shows "\<exists>a1 a2 v1.
     (calls s' = calls s @
       [Uuid4 (fst (uuid4 G (world s))),
        EmbeddingsCreate (dict_get item ''summary'') default_model a1] \<and> isl (try_body a1))
   \<or> (calls s' = calls s @
       [Uuid4 (fst (uuid4 G (world s))),
        EmbeddingsCreate (dict_get item ''summary'') default_model a1,
        EmbeddingsCreate (dict_get item ''chunk'') default_model a2] \<and>
       try_body a1 = Inr v1 \<and> isl (try_body a2))"
  using assms
  by (auto simp: loop_body_def get_text_embedding_def Let_def
      split: prod.splits sum.splits if_splits)

lemma for_loop_Inr:
  "for_loop G data points s = (Inr ps, s') \<Longrightarrow>
   \<exists>built cs. ps = points @ built \<and> calls s' = calls s @ cs \<and>
     list_all2 built_from data built \<and>
     \<not> list_ex embed_failed cs \<and> upsert_batches cs = [] \<and> upsert_replies cs = [] \<and>
     printed cs = [] \<and> uuids cs = map point_id built \<and>
     embed_texts cs = concat (map slot_texts data)"
proof (induction data arbitrary: points s)
  case Nil
  then show ?case by simp
next
  case (Cons item data)
  from Cons.prems obtain p s1 where
    body: "loop_body G item s = (Inr p, s1)" and
    rest: "for_loop G data (points @ [p]) s1 = (Inr ps, s')"
    by (auto split: prod.splits sum.splits)
  from loop_body_Inr[OF body] obtain a1 a2 v1 v2 where
    c1: "calls s1 = calls s @
       [Uuid4 (point_id p),
        EmbeddingsCreate (dict_get item ''summary'') default_model a1,
        EmbeddingsCreate (dict_get item ''chunk'') default_model a2]" and
    ok: "try_body a1 = Inr v1" "try_body a2 = Inr v2" and
    p: "p = assembled (point_id p) item v1 v2"
    by blast
  from Cons.IH[OF rest] obtain built cs where
    ih: "ps = (points @ [p]) @ built" "calls s' = calls s1 @ cs"
      "list_all2 built_from data built"
      "\<not> list_ex embed_failed cs" "upsert_batches cs = []" "upsert_replies cs = []"
      "printed cs = []" "uuids cs = map point_id built"
      "embed_texts cs = concat (map slot_texts data)"
    by blast
  have bf: "built_from item p"
    using p unfolding built_from_def by blast
  let ?cs = "[Uuid4 (point_id p),
        EmbeddingsCreate (dict_get item ''summary'') default_model a1,
        EmbeddingsCreate (dict_get item ''chunk'') default_model a2] @ cs"
  have "ps = points @ (p # built)" using ih(1) by simp
  moreover have "calls s' = calls s @ ?cs" using ih(2) c1 by simp
  moreover have "list_all2 built_from (item # data) (p # built)" using bf ih(3) by simp
  moreover have "\<not> list_ex embed_failed ?cs" using ih(4) ok by simp
  moreover have "upsert_batches ?cs = []" "upsert_replies ?cs = []" "printed ?cs = []"
    using ih(5,6,7) by simp_all
  moreover have "uuids ?cs = map point_id (p # built)" using ih(8) by simp
  moreover have "embed_texts ?cs = concat (map slot_texts (item # data))"
    using ih(9) by (simp add: slot_texts_def)
  ultimately show ?case by blast
qed

lemma for_loop_Inl:
  "for_loop G data points s = (Inl e, s') \<Longrightarrow>
   \<exists>cs. calls s' = calls s @ cs \<and> list_ex embed_failed cs \<and>
     upsert_batches cs = [] \<and> upsert_replies cs = [] \<and> printed cs = []"
proof (induction data arbitrary: points s)
  case Nil
  then show ?case by simp
next
  case (Cons item data)
  show ?case
  proof (cases "loop_body G item s")
    case (Pair r s1)
    show ?thesis
    proof (cases r)
      case (Inl e')
      with Pair Cons.prems have eq: "loop_body G item s = (Inl e, s')" by simp
      from loop_body_Inl[OF eq] show ?thesis by auto
    next
      case (Inr p)
      with Pair Cons.prems have
        body: "loop_body G item s = (Inr p, s1)" and
        rest: "for_loop G data (points @ [p]) s1 = (Inl e, s')" by simp_all
      from loop_body_Inr[OF body] obtain a1 a2 where
        c1: "calls s1 = calls s @
         [Uuid4 (point_id p),
          EmbeddingsCreate (dict_get item ''summary'') default_model a1,
          EmbeddingsCreate (dict_get item ''chunk'') default_model a2]"
        by blast
      from Cons.IH[OF rest] obtain cs where
        ih: "calls s' = calls s1 @ cs" "list_ex embed_failed cs"
          "upsert_batches cs = []" "upsert_replies cs = []" "printed cs = []"
        by blast
      let ?cs = "[Uuid4 (point_id p),
          EmbeddingsCreate (dict_get item ''summary'') default_model a1,
          EmbeddingsCreate (dict_get item ''chunk'') default_model a2] @ cs"
      have "calls s' = calls s @ ?cs" using ih(1) c1 by simp
      moreover have "list_ex embed_failed ?cs" using ih(2) by simp
      moreover have "upsert_batches ?cs = []" "upsert_replies ?cs = []" "printed ?cs = []"
        using ih(3,4,5) by simp_all
      ultimately show ?thesis by blast
    qed
  qed
qed


lemma run_shape:
  assumes "add_data_to_collection G data qc name s = (r, s')"
  shows "(\<exists>e cs. r = Inl e \<and> new_calls s s' = cs \<and> list_ex embed_failed cs \<and>
            upsert_batches cs = [] \<and> upsert_replies cs = [] \<and> printed cs = [])
       \<or> (\<exists>ps cs rep.
            new_calls s s' = cs @ Upsert name True ps rep # status_message rep \<and>
            r = (case rep of Inl e \<Rightarrow> Inl e | Inr info \<Rightarrow> Inr ()) \<and>
            list_all2 built_from data ps \<and> \<not> list_ex embed_failed cs \<and>
            upsert_batches cs = [] \<and> upsert_replies cs = [] \<and> printed cs = [] \<and>
            uuids cs = map point_id ps \<and> embed_texts cs = concat (map slot_texts data))"
proof (cases "for_loop G data [] s")
  case (Pair lr s1)
  show ?thesis
  proof (cases lr)
    case (Inl e)
    with Pair assms have "r = Inl e" "s' = s1"
      by (simp_all add: add_data_to_collection_def)
    moreover from for_loop_Inl[of G data "[]" s e s1] Pair Inl obtain cs where
      "calls s1 = calls s @ cs" "list_ex embed_failed cs"
      "upsert_batches cs = []" "upsert_replies cs = []" "printed cs = []"
      by blast
    ultimately show ?thesis by (auto simp: new_calls_append)
  next
    case (Inr ps)
    from for_loop_Inr[of G data "[]" s ps s1] Pair Inr obtain cs where
      loop: "calls s1 = calls s @ cs" "list_all2 built_from data ps"
        "\<not> list_ex embed_failed cs" "upsert_batches cs = []" "upsert_replies cs = []"
        "printed cs = []" "uuids cs = map point_id ps"
        "embed_texts cs = concat (map slot_texts data)"
      by auto
    obtain rep w2 where up: "upsert qc (world s1) name True ps = (rep, w2)"
      by (cases "upsert qc (world s1) name True ps")
    have "calls s' = calls s @ cs @ Upsert name True ps rep # status_message rep \<and>
          r = (case rep of Inl e \<Rightarrow> Inl e | Inr info \<Rightarrow> Inr ())"
      using assms Pair Inr up loop(1)
      by (auto simp: add_data_to_collection_def status_message_def split: sum.splits if_splits)
    then have "new_calls s s' = cs @ Upsert name True ps rep # status_message rep"
      and "r = (case rep of Inl e \<Rightarrow> Inl e | Inr info \<Rightarrow> Inr ())"
      by (simp_all add: new_calls_append)
    with loop show ?thesis by blast
  qed
qed

lemma printed_status_message:
  "printed (status_message rep) =
     (case rep of Inl e \<Rightarrow> [] | Inr info \<Rightarrow>
        [if status info = COMPLETED then ''Data inserted successfully!''
         else ''Failed to insert data''])"
  by (simp add: status_message_def split: sum.splits)

lemma quiet_status_message:
  "upsert_batches (status_message rep) = [] \<and> upsert_replies (status_message rep) = [] \<and>
   \<not> list_ex embed_failed (status_message rep)"
  by (simp add: status_message_def split: sum.splits)

lemma built_from_payload:
  "built_from item p \<Longrightarrow>
   payload p =
     [(''text_id'', PStr (point_id p)),
      (''title'', dict_get item ''title''),
      (''source'', dict_get item ''source''),
      (''authors'', dict_get item ''authors''),
      (''chunk'', dict_get item ''chunk''),
      (''summary'', dict_get item ''summary'')]"
proof -
  assume "built_from item p"
  then obtain v1 v2 where "p = assembled (point_id p) item v1 v2"
    unfolding built_from_def by blast
  from arg_cong[OF this, of payload] show ?thesis
    by (simp add: assembled_def)
qed

lemma built_from_vector:
  "built_from item p \<Longrightarrow>
   \<exists>v1 v2. vector p = [(''summary'', v1), (''chunk'', v2)]"
proof -
  assume "built_from item p"
  then obtain v1 v2 where "p = assembled (point_id p) item v1 v2"
    unfolding built_from_def by blast
  from arg_cong[OF this, of vector] show ?thesis
    by (simp add: assembled_def)
qed

lemma loop_body_built_from: "loop_body G item s = (Inr p, s') \<Longrightarrow> built_from item p"
  using loop_body_Inr[of G item s p s'] unfolding built_from_def by blast

lemma dict_get_absent: "map_of item k = None \<Longrightarrow> dict_get item k = PNone"
  by (simp add: dict_get_def)

lemma dict_get_present: "map_of item k = Some v \<Longrightarrow> dict_get item k = v"
  by (simp add: dict_get_def)

lemma built_from_payload_map:
  assumes "built_from item p"
  shows "map_of (payload p) ''text_id'' = Some (PStr (point_id p)) \<and>
         (\<forall>k \<in> set [''summary'', ''chunk'', ''title'', ''source'', ''authors''].
            map_of (payload p) k = Some (dict_get item k)) \<and>
         (\<forall>k. k \<notin> set [''text_id'', ''title'', ''source'', ''authors'', ''chunk'', ''summary'']
            \<longrightarrow> map_of (payload p) k = None)"
proof (intro conjI ballI allI impI)
  note pl = built_from_payload[OF assms]
  show "map_of (payload p) ''text_id'' = Some (PStr (point_id p))"
    by (simp add: pl)
  show "map_of (payload p) k = Some (dict_get item k)"
    if "k \<in> set [''summary'', ''chunk'', ''title'', ''source'', ''authors'']" for k
    using that by (auto simp: pl)
  show "map_of (payload p) k = None"
    if "k \<notin> set [''text_id'', ''title'', ''source'', ''authors'', ''chunk'', ''summary'']" for k
    using that by (simp add: pl)
qed

lemma empty_run:
  assumes "add_data_to_collection G [] qc name s = (r, s')"
  shows "upsert_batches (new_calls s s') = [[]]"
proof -
  obtain rep w2 where up: "upsert qc (world s) name True [] = (rep, w2)"
    by (cases "upsert qc (world s) name True []")
  have "calls s' = calls s @ Upsert name True [] rep # status_message rep"
    using assms up
    by (auto simp: add_data_to_collection_def status_message_def split: sum.splits if_splits)
  then have "new_calls s s' = Upsert name True [] rep # status_message rep"
    by (rule new_calls_append)
  then show ?thesis using quiet_status_message[of rep] by simp
qed

lemma uuids_status_message: "uuids (status_message rep) = []"
  by (simp add: status_message_def split: sum.splits)

lemma put_point_idem: "put_point p (put_point p c) = put_point p c"
  by (induction c) simp_all

lemma length_put_point:
  "length (put_point p c) =
     (if point_id p \<in> set (map point_id c) then length c else Suc (length c))"
  by (induction c) auto

lemma retrieve_put_point_same: "retrieve (put_point p c) (point_id p) = Some p"
  by (induction c) (simp_all add: retrieve_def)

lemma retrieve_put_point_other:
  "i \<noteq> point_id p \<Longrightarrow> retrieve (put_point p c) i = retrieve c i"
  by (induction c) (auto simp: retrieve_def)

lemma ids_put_point:
  "map point_id (put_point p c) =
     (if point_id p \<in> set (map point_id c) then map point_id c
      else map point_id c @ [point_id p])"
  by (induction c) auto

lemma retrieve_None_iff: "retrieve c i = None \<longleftrightarrow> i \<notin> set (map point_id c)"
  by (auto simp: retrieve_def find_None_iff)

section \<open>The claims\<close>

subsection \<open>C1: no partial point reaches the Writer\<close>

text \<open>
  Claim C1. If the embedding of any selected field fails during a run of
  \<^verbatim>\<open>add_data_to_collection\<close> (also when the field is absent from the record and
  \<^verbatim>\<open>None\<close> is what the provider refuses), the run ends with the exception and issues no
  upsert call, so no point of that record is forwarded; and every point of a batch that is
  passed to upsert carries an embedding under both declared slots, \<open>summary\<close> and
  \<open>chunk\<close>: a partial point never reaches upsert.
\<close>

theorem no_partial_point_reaches_upsert:
  assumes "add_data_to_collection G data qc name s = (r, s')"
  shows "(list_ex embed_failed (new_calls s s') \<longrightarrow>
            upsert_batches (new_calls s s') = [] \<and> isl r) \<and>
         (\<forall>ps \<in> set (upsert_batches (new_calls s s')). \<forall>p \<in> set ps.
            map fst (vector p) = [''summary'', ''chunk''])"
proof -
  from run_shape[OF assms] show ?thesis
  proof (elim disjE exE conjE)
    fix e cs
    assume "r = Inl e" "new_calls s s' = cs" "upsert_batches cs = []"
    then show ?thesis by simp
  next
    fix ps cs rep
    assume nc: "new_calls s s' = cs @ Upsert name True ps rep # status_message rep"
      and built: "list_all2 built_from data ps"
      and quiet: "\<not> list_ex embed_failed cs" "upsert_batches cs = []"
    have no_fail: "\<not> list_ex embed_failed (new_calls s s')"
      using nc quiet quiet_status_message[of rep] by simp
    have batches: "upsert_batches (new_calls s s') = [ps]"
      using nc quiet quiet_status_message[of rep] by simp
    have "\<forall>p \<in> set ps. map fst (vector p) = [''summary'', ''chunk'']"
    proof
      fix p assume "p \<in> set ps"
      with built obtain item where "built_from item p"
        by (auto simp: list_all2_conv_all_nth in_set_conv_nth)
      then obtain v1 v2 where "p = assembled (point_id p) item v1 v2"
        unfolding built_from_def by blast
      then have "vector p = [(''summary'', v1), (''chunk'', v2)]"
        by (metis PointStruct.select_convs(2) assembled_def)
      then show "map fst (vector p) = [''summary'', ''chunk'']" by simp
    qed
    with no_fail batches show ?thesis by simp
  qed
qed

text \<open>
  The theorem at a fault-injected batch, whose second record has no summary while the
  provider refuses \<^verbatim>\<open>None\<close>, and at a batch that is forwarded.
\<close>

theorem no_partial_point_reaches_upsert_witness:
  "list_ex embed_failed
     (new_calls (sim_start [''u1'', ''u2''] [PNone] COMPLETED)
        (snd (add_data_to_collection sim_globals [record_full, record_unsummarised] sim_qdrant
                ''arxiv_chunks'' (sim_start [''u1'', ''u2''] [PNone] COMPLETED)))) \<and>
   upsert_batches
     (new_calls (sim_start [''u1'', ''u2''] [PNone] COMPLETED)
        (snd (add_data_to_collection sim_globals [record_full, record_unsummarised] sim_qdrant
                ''arxiv_chunks'' (sim_start [''u1'', ''u2''] [PNone] COMPLETED)))) = [] \<and>
   isl (fst (add_data_to_collection sim_globals [record_full, record_unsummarised] sim_qdrant
               ''arxiv_chunks'' (sim_start [''u1'', ''u2''] [PNone] COMPLETED))) \<and>
   map (map vector)
     (upsert_batches
        (new_calls (sim_start [''u1''] [PNone] COMPLETED)
           (snd (add_data_to_collection sim_globals [record_full] sim_qdrant
                   ''arxiv_chunks'' (sim_start [''u1''] [PNone] COMPLETED))))) =
     [[[(''summary'', [18, 1]), (''chunk'', [8, 1])]]]"
  using no_partial_point_reaches_upsert
    [where G = sim_globals and data = "[record_full, record_unsummarised]" and qc = sim_qdrant
      and name = "''arxiv_chunks''" and s = "sim_start [''u1'', ''u2''] [PNone] COMPLETED",
     OF surjective_pairing]
    no_partial_point_reaches_upsert
    [where G = sim_globals and data = "[record_full]" and qc = sim_qdrant
      and name = "''arxiv_chunks''" and s = "sim_start [''u1''] [PNone] COMPLETED",
     OF surjective_pairing]
  by (simp add: sim_defs)

subsection \<open>C2: the reported status\<close>

text \<open>
  Claim C2. The message that \<^verbatim>\<open>add_data_to_collection\<close> prints is determined by the
  status the storage service returned: the success message is printed only when upsert
  returned and the status is \<^verbatim>\<open>UpdateStatus.COMPLETED\<close>; for any other returned status
  the failure message is printed; when upsert was not reached or raised, nothing is printed
  and the exception propagates.
\<close>

theorem success_message_iff_completed:
  assumes "add_data_to_collection G data qc name s = (r, s')"
  shows "printed (new_calls s s') =
     (case upsert_replies (new_calls s s') of
        [Inr info] \<Rightarrow>
          if status info = COMPLETED then [''Data inserted successfully!'']
          else [''Failed to insert data'']
      | _ \<Rightarrow> []) \<and>
     isl r = (\<nexists>info. upsert_replies (new_calls s s') = [Inr info])"
proof -
  from run_shape[OF assms] show ?thesis
  proof (elim disjE exE conjE)
    fix e cs
    assume "r = Inl e" "new_calls s s' = cs" "upsert_replies cs = []" "printed cs = []"
    then show ?thesis by simp
  next
    fix ps cs rep
    assume nc: "new_calls s s' = cs @ Upsert name True ps rep # status_message rep"
      and r: "r = (case rep of Inl e \<Rightarrow> Inl e | Inr info \<Rightarrow> Inr ())"
      and quiet: "upsert_replies cs = []" "printed cs = []"
    have replies: "upsert_replies (new_calls s s') = [rep]"
      using nc quiet quiet_status_message[of rep] by simp
    have msgs: "printed (new_calls s s') = printed (status_message rep)"
      using nc quiet by simp
    show ?thesis
    proof (cases rep)
      case (Inl e)
      with replies msgs r show ?thesis by (simp add: printed_status_message)
    next
      case (Inr info)
      with replies msgs r show ?thesis by (simp add: printed_status_message)
    qed
  qed
qed

text \<open>
  The theorem in a world whose storage service replies \<^verbatim>\<open>ACKNOWLEDGED\<close>.
\<close>

theorem success_message_iff_completed_witness:
  "upsert_replies
     (new_calls (sim_start [''u1''] [] ACKNOWLEDGED)
        (snd (add_data_to_collection sim_globals [record_full] sim_qdrant ''arxiv_chunks''
                (sim_start [''u1''] [] ACKNOWLEDGED)))) =
     [Inr \<lparr>operation_id = Some 0, status = ACKNOWLEDGED\<rparr>] \<and>
   printed
     (new_calls (sim_start [''u1''] [] ACKNOWLEDGED)
        (snd (add_data_to_collection sim_globals [record_full] sim_qdrant ''arxiv_chunks''
                (sim_start [''u1''] [] ACKNOWLEDGED)))) = [''Failed to insert data'']"
  using success_message_iff_completed
    [where G = sim_globals and data = "[record_full]" and qc = sim_qdrant
      and name = "''arxiv_chunks''" and s = "sim_start [''u1''] [] ACKNOWLEDGED",
     OF surjective_pairing]
  by (simp add: sim_defs)

subsection \<open>C3: absent fields\<close>

text \<open>
  Claim C3, as the code has it. The Point Builder has no check for absent fields and never
  signals a \<open>MissingField\<close> error: \<^verbatim>\<open>item.get\<close> reads an absent field as \<^verbatim>\<open>None\<close>.
  For a record on which one of summary, chunk, title, source, authors is absent: if the
  point is built, its payload holds \<^verbatim>\<open>None\<close> under that key; if the construction fails,
  the error is that of a failed Embedder call; an absent summary or chunk is passed to the
  Embedder as \<^verbatim>\<open>None\<close>.
\<close>

theorem absent_field_read_as_None:
  assumes "map_of item k = None"
    and "k \<in> set [''summary'', ''chunk'', ''title'', ''source'', ''authors'']"
    and "loop_body G item s = (r, s')"
  shows "(\<forall>p. r = Inr p \<longrightarrow> map_of (payload p) k = Some PNone) \<and>
         (\<forall>e. r = Inl e \<longrightarrow> list_ex embed_failed (new_calls s s')) \<and>
         (k = ''summary'' \<longrightarrow> take 1 (embed_texts (new_calls s s')) = [PNone]) \<and>
         (k = ''chunk'' \<longrightarrow> (\<forall>t \<in> set (drop 1 (embed_texts (new_calls s s'))). t = PNone))"
proof (cases r)
  case (Inl e)
  with assms(3) have body: "loop_body G item s = (Inl e, s')" by simp
  from loop_body_Inl[OF body] obtain a1 a2 v1 where
    "(calls s' = calls s @
       [Uuid4 (fst (uuid4 G (world s))),
        EmbeddingsCreate (dict_get item ''summary'') default_model a1] \<and> isl (try_body a1))
   \<or> (calls s' = calls s @
       [Uuid4 (fst (uuid4 G (world s))),
        EmbeddingsCreate (dict_get item ''summary'') default_model a1,
        EmbeddingsCreate (dict_get item ''chunk'') default_model a2] \<and>
       try_body a1 = Inr v1 \<and> isl (try_body a2))"
    by blast
  then show ?thesis
    using Inl dict_get_absent[OF assms(1)]
    by (auto simp: new_calls_append)
next
  case (Inr p)
  with assms(3) have body: "loop_body G item s = (Inr p, s')" by simp
  from loop_body_Inr[OF body] obtain a1 a2 where
    c: "calls s' = calls s @
       [Uuid4 (point_id p),
        EmbeddingsCreate (dict_get item ''summary'') default_model a1,
        EmbeddingsCreate (dict_get item ''chunk'') default_model a2]"
    by blast
  have pl: "map_of (payload p) k = Some PNone"
    using built_from_payload[OF loop_body_built_from[OF body]] assms(2)
      dict_get_absent[OF assms(1)]
    by auto
  show ?thesis
    using Inr pl c dict_get_absent[OF assms(1)]
    by (auto simp: new_calls_append)
qed

text \<open>
  The theorem at a record without summary, in a world whose provider answers \<^verbatim>\<open>None\<close>.
\<close>

theorem absent_field_read_as_None_witness:
  "map_of record_unsummarised ''summary'' = None \<and>
   fst (loop_body sim_globals record_unsummarised (sim_start [''u1''] [] COMPLETED)) =
     Inr \<lparr>point_id = ''u1'',
          vector = [(''summary'', [0, 0]), (''chunk'', [8, 1])],
          payload =
            [(''text_id'', PStr ''u1''),
             (''title'', PStr ''Decomposed Prompting''),
             (''source'', PStr ''http://arxiv.org/pdf/2210.02406''),
             (''authors'', PList [PStr ''Tushar Khot'']),
             (''chunk'', PStr ''Figure 1''),
             (''summary'', PNone)]\<rparr> \<and>
   take 1 (embed_texts
     (new_calls (sim_start [''u1''] [] COMPLETED)
        (snd (loop_body sim_globals record_unsummarised (sim_start [''u1''] [] COMPLETED))))) =
     [PNone]"
  using absent_field_read_as_None
    [where item = record_unsummarised and k = "''summary''" and G = sim_globals
      and s = "sim_start [''u1''] [] COMPLETED", OF _ _ surjective_pairing]
  by (simp add: sim_defs)

text \<open>
  Claim C3 as stated fails: for a record without title the point is built with the title
  \<^verbatim>\<open>None\<close> in its payload, the run returns normally and prints the success message; no
  error is signalled.
\<close>

theorem missing_field_counterexample:
  "map_of record_untitled ''title'' = None \<and>
   fst (loop_body sim_globals record_untitled (sim_start [''u1''] [] COMPLETED)) =
     Inr \<lparr>point_id = ''u1'',
          vector = [(''summary'', [18, 1]), (''chunk'', [8, 1])],
          payload =
            [(''text_id'', PStr ''u1''),
             (''title'', PNone),
             (''source'', PStr ''http://arxiv.org/pdf/2210.02406''),
             (''authors'', PList [PStr ''Tushar Khot'']),
             (''chunk'', PStr ''Figure 1''),
             (''summary'', PStr ''Few-shot prompting'')]\<rparr> \<and>
   fst (add_data_to_collection sim_globals [record_untitled] sim_qdrant ''arxiv_chunks''
          (sim_start [''u1''] [] COMPLETED)) = Inr () \<and>
   printed (calls (snd (add_data_to_collection sim_globals [record_untitled] sim_qdrant
          ''arxiv_chunks'' (sim_start [''u1''] [] COMPLETED)))) = [''Data inserted successfully!'']"
  by (simp add: sim_defs)

subsection \<open>C4: what the payload carries\<close>

text \<open>
  Claim C4, as the code has it. For every point of a batch passed to upsert, built from the
  record at the same position of the input: the payload holds the generated identifier
  under text_id, and under summary, chunk, title, source and authors what
  \<^verbatim>\<open>item.get\<close> read from the record; it holds nothing under any other key, so further
  metadata of the record (doi, categories, published, ...) is not carried over.
\<close>

theorem payload_carries_listed_fields_only:
  assumes "add_data_to_collection G data qc name s = (r, s')"
  shows "\<forall>ps \<in> set (upsert_batches (new_calls s s')).
           list_all2
             (\<lambda>item p.
                map_of (payload p) ''text_id'' = Some (PStr (point_id p)) \<and>
                (\<forall>k \<in> set [''summary'', ''chunk'', ''title'', ''source'', ''authors''].
                   map_of (payload p) k = Some (dict_get item k)) \<and>
                (\<forall>k. k \<notin> set [''text_id'', ''title'', ''source'', ''authors'', ''chunk'',
                                ''summary'']
                   \<longrightarrow> map_of (payload p) k = None))
             data ps"
proof -
  from run_shape[OF assms] show ?thesis
  proof (elim disjE exE conjE)
    fix e cs
    assume "new_calls s s' = cs" "upsert_batches cs = []"
    then show ?thesis by simp
  next
    fix ps cs rep
    assume nc: "new_calls s s' = cs @ Upsert name True ps rep # status_message rep"
      and built: "list_all2 built_from data ps"
      and quiet: "upsert_batches cs = []"
    have batches: "upsert_batches (new_calls s s') = [ps]"
      using nc quiet quiet_status_message[of rep] by simp
    have "list_all2
             (\<lambda>item p.
                map_of (payload p) ''text_id'' = Some (PStr (point_id p)) \<and>
                (\<forall>k \<in> set [''summary'', ''chunk'', ''title'', ''source'', ''authors''].
                   map_of (payload p) k = Some (dict_get item k)) \<and>
                (\<forall>k. k \<notin> set [''text_id'', ''title'', ''source'', ''authors'', ''chunk'',
                                ''summary'']
                   \<longrightarrow> map_of (payload p) k = None))
             data ps"
      by (rule list_all2_mono[OF built]) (rule built_from_payload_map)
    with batches show ?thesis by simp
  qed
qed

text \<open>
  The theorem at the complete record, which has a publication date.
\<close>

theorem payload_carries_listed_fields_only_witness:
  "upsert_batches
     (new_calls (sim_start [''u1''] [] COMPLETED)
        (snd (add_data_to_collection sim_globals [record_full] sim_qdrant ''arxiv_chunks''
                (sim_start [''u1''] [] COMPLETED)))) =
     [[assembled ''u1'' record_full [18, 1] [8, 1]]] \<and>
   map_of (payload (assembled ''u1'' record_full [18, 1] [8, 1])) ''title'' =
     Some (PStr ''Decomposed Prompting'') \<and>
   map_of (payload (assembled ''u1'' record_full [18, 1] [8, 1])) ''published'' = None"
  using payload_carries_listed_fields_only
    [where G = sim_globals and data = "[record_full]" and qc = sim_qdrant
      and name = "''arxiv_chunks''" and s = "sim_start [''u1''] [] COMPLETED",
     OF surjective_pairing]
  by (simp add: sim_defs assembled_def)

text \<open>
  Claim C4 as stated fails: the record has a doi, categories and a publication date, and the
  payload of the point built from it has none of them.
\<close>

theorem other_metadata_counterexample:
  "map_of record_full ''doi'' = Some (PStr ''2210.02406'') \<and>
   map_of record_full ''categories'' = Some (PList [PStr ''cs.CL'']) \<and>
   map_of record_full ''published'' = Some (PStr ''20221005'') \<and>
   map (map payload)
     (upsert_batches
        (calls (snd (add_data_to_collection sim_globals [record_full] sim_qdrant
                       ''arxiv_chunks'' (sim_start [''u1''] [] COMPLETED))))) =
     [[[(''text_id'', PStr ''u1''),
        (''title'', PStr ''Decomposed Prompting''),
        (''source'', PStr ''http://arxiv.org/pdf/2210.02406''),
        (''authors'', PList [PStr ''Tushar Khot'', PStr ''Harsh Trivedi'']),
        (''chunk'', PStr ''Figure 1''),
        (''summary'', PStr ''Few-shot prompting'')]]]"
  by (simp add: sim_defs)

subsection \<open>C5: identifiers\<close>

text \<open>
  Claim C5, as the code has it. The identifier of a point is not derived from the record: it
  is the value that the call of \<^verbatim>\<open>uuid.uuid4()\<close> made for that record returns, so two
  different records processed in the same state get the same identifier, and the
  identifiers of a batch passed to upsert are exactly the values the generator returned
  during the run, in order.
\<close>

theorem identifiers_come_from_uuid4:
  "(\<forall>p s' item2 p2 s2'.
      loop_body G item s = (Inr p, s') \<and> loop_body G item2 s = (Inr p2, s2') \<longrightarrow>
      point_id p = fst (uuid4 G (world s)) \<and> point_id p2 = point_id p) \<and>
   (\<forall>r s'. add_data_to_collection G data qc name s = (r, s') \<longrightarrow>
      (\<forall>ps \<in> set (upsert_batches (new_calls s s')).
         map point_id ps = uuids (new_calls s s')))"
proof (intro conjI allI impI)
  fix p s' item2 p2 s2'
  assume h: "loop_body G item s = (Inr p, s') \<and> loop_body G item2 s = (Inr p2, s2')"
  from h loop_body_Inr[of G item s p s'] have 1: "point_id p = fst (uuid4 G (world s))"
    by blast
  from h loop_body_Inr[of G item2 s p2 s2'] have 2: "point_id p2 = fst (uuid4 G (world s))"
    by blast
  from 1 show "point_id p = fst (uuid4 G (world s))" .
  from 1 2 show "point_id p2 = point_id p" by simp
next
  fix r s'
  assume run: "add_data_to_collection G data qc name s = (r, s')"
  from run_shape[OF run]
  show "\<forall>ps \<in> set (upsert_batches (new_calls s s')). map point_id ps = uuids (new_calls s s')"
  proof (elim disjE exE conjE)
    fix e cs
    assume "new_calls s s' = cs" "upsert_batches cs = []"
    then show ?thesis by simp
  next
    fix ps cs rep
    assume nc: "new_calls s s' = cs @ Upsert name True ps rep # status_message rep"
      and quiet: "upsert_batches cs = []" and ids: "uuids cs = map point_id ps"
    have "upsert_batches (new_calls s s') = [ps]"
      using nc quiet quiet_status_message[of rep] by simp
    moreover have "uuids (new_calls s s') = map point_id ps"
      using nc ids by (simp add: uuids_status_message)
    ultimately show ?thesis by simp
  qed
qed

text \<open>
  The theorem in the simulated world: two different records, one batch of two.
\<close>

theorem identifiers_come_from_uuid4_witness:
  "fst (loop_body sim_globals record_full (sim_start [''u1'', ''u2''] [] COMPLETED)) =
     Inr (assembled ''u1'' record_full [18, 1] [8, 1]) \<and>
   fst (loop_body sim_globals record_unsummarised (sim_start [''u1'', ''u2''] [] COMPLETED)) =
     Inr (assembled ''u1'' record_unsummarised [0, 0] [8, 1]) \<and>
   uuids (new_calls (sim_start [''u1'', ''u2''] [] COMPLETED)
     (snd (add_data_to_collection sim_globals [record_full, record_untitled] sim_qdrant
             ''arxiv_chunks'' (sim_start [''u1'', ''u2''] [] COMPLETED)))) = [''u1'', ''u2''] \<and>
   map (map point_id)
     (upsert_batches (new_calls (sim_start [''u1'', ''u2''] [] COMPLETED)
       (snd (add_data_to_collection sim_globals [record_full, record_untitled] sim_qdrant
               ''arxiv_chunks'' (sim_start [''u1'', ''u2''] [] COMPLETED))))) =
     [[''u1'', ''u2'']]"
  using identifiers_come_from_uuid4
    [where G = sim_globals and item = record_full and data = "[record_full, record_untitled]"
      and qc = sim_qdrant and name = "''arxiv_chunks''"
      and s = "sim_start [''u1'', ''u2''] [] COMPLETED"]
  by (simp add: sim_defs assembled_def)

text \<open>
  Claim C5 as stated fails: ingesting the same record a second time submits it under the
  generator's next identifier, and a storage service that overwrites by identifier then
  holds two points instead of one.
\<close>

theorem reingestion_counterexample:
  "map (map point_id) (upsert_batches (calls first_run)) = [[''u1'']] \<and>
   map (map point_id) (upsert_batches (new_calls first_run second_run)) = [[''u2'']] \<and>
   points_count (stored (world first_run)) = 1 \<and>
   points_count (stored (world second_run)) = 2"
  by (simp add: first_run_def second_run_def sim_defs points_count_def)

subsection \<open>C6: upsert of the storage service\<close>

text \<open>
  Claim C6, on the storage service as modelled from the spec. Submitting the same point
  twice gives the same collection, and the same point count, as submitting it once. After
  an upsert the collection holds under the point's identifier exactly the submitted point:
  its vectors and payload replace what was stored, nothing of the old point is merged in.
  If the identifier was present the point count is unchanged; no other identifier is
  affected; identifiers stay unique.
\<close>

theorem upsert_idempotent_per_identifier:
  "upsert_points [p] (upsert_points [p] c) = upsert_points [p] c \<and>
   points_count (upsert_points [p] (upsert_points [p] c)) = points_count (upsert_points [p] c) \<and>
   retrieve (upsert_points [p] c) (point_id p) = Some p \<and>
   (retrieve c (point_id p) \<noteq> None \<longrightarrow>
      points_count (upsert_points [p] c) = points_count c) \<and>
   (\<forall>i. i \<noteq> point_id p \<longrightarrow> retrieve (upsert_points [p] c) i = retrieve c i) \<and>
   (distinct (map point_id c) \<longrightarrow> distinct (map point_id (upsert_points [p] c)))"
proof -
  have up: "upsert_points [p] c = put_point p c" for c
    by (simp add: upsert_points_def)
  have "distinct (map point_id (put_point p c))" if "distinct (map point_id c)"
    using that by (simp add: ids_put_point)
  moreover have "points_count (put_point p c) = points_count c"
    if "retrieve c (point_id p) \<noteq> None"
    using that by (simp add: points_count_def length_put_point retrieve_None_iff)
  ultimately show ?thesis
    by (simp add: up put_point_idem retrieve_put_point_same retrieve_put_point_other)
qed

text \<open>
  The theorem at a collection of two points, one of which has the submitted identifier.
\<close>

theorem upsert_idempotent_per_identifier_witness:
  "retrieve [other_point, stored_point] ''u1'' = Some stored_point \<and>
   points_count [other_point, stored_point] = 2 \<and>
   upsert_points [submitted_point] [other_point, stored_point] = [other_point, submitted_point] \<and>
   points_count (upsert_points [submitted_point] [other_point, stored_point]) = 2 \<and>
   points_count (upsert_points [submitted_point]
     (upsert_points [submitted_point] [other_point, stored_point])) = 2 \<and>
   retrieve (upsert_points [submitted_point] [other_point, stored_point]) ''u1'' =
     Some submitted_point \<and>
   retrieve (upsert_points [submitted_point] [other_point, stored_point]) ''u0'' =
     Some other_point"
  using upsert_idempotent_per_identifier[of submitted_point "[other_point, stored_point]"]
  by (simp add: upsert_points_def points_count_def retrieve_def
      submitted_point_def stored_point_def other_point_def)

subsection \<open>C7: length of an embedding\<close>

text \<open>
  Claim C7, for a provider that keeps the contract modelled from the spec. For a non-empty
  text, whenever \<^verbatim>\<open>get_text_embedding\<close> returns a vector, its length is the declared
  dimensionality of the model; hence any other non-empty text embedded with the same model
  gives a vector of the same length, whatever its token count. The function returns the
  first vector of the provider's answer as it is.
\<close>

theorem embedding_length_is_declared_dimensionality:
  assumes "provider_contract declared client"
    and "t \<noteq> []"
    and "get_text_embedding (PStr t) client model s = (Inr v, s')"
  shows "declared model = Some (length v) \<and>
         (\<forall>t2 s2 v2 s2'.
            t2 \<noteq> [] \<and> get_text_embedding (PStr t2) client model s2 = (Inr v2, s2') \<longrightarrow>
            length v2 = length v)"
proof -
  have len: "declared model = Some (length u)"
    if "x \<noteq> []" and "get_text_embedding (PStr x) client model z = (Inr u, z')"
    for x z u z'
  proof -
    obtain r w' where api: "embeddings_create client (world z) (PStr x) model = (r, w')"
      by (cases "embeddings_create client (world z) (PStr x) model")
    from that(2) api obtain rest where r: "r = Inr (u # rest)"
      by (auto simp: get_text_embedding_def try_body_def Let_def
          split: sum.splits list.splits if_splits)
    from assms(1) that(1) api r obtain n where
      "declared model = Some n" "list_all (\<lambda>v. length v = n) (u # rest)"
      unfolding provider_contract_def by blast
    then show ?thesis by simp
  qed
  from len[OF assms(2,3)] have a: "declared model = Some (length v)" .
  have "length v2 = length v"
    if "t2 \<noteq> [] \<and> get_text_embedding (PStr t2) client model s2 = (Inr v2, s2')"
    for t2 s2 v2 s2'
    using len[of t2 s2 v2 s2'] that a by simp
  with a show ?thesis by blast
qed

text \<open>
  The theorem for the large text model, with 3072 dimensions, at a short and a longer text.
\<close>

theorem embedding_length_is_declared_dimensionality_witness:
  "provider_contract declared_dimensionality large_client \<and>
   fst (get_text_embedding (PStr ''hi'') large_client ''text-embedding-3-large''
          \<lparr>world = (), calls = []\<rparr>) = Inr (replicate 3072 0) \<and>
   fst (get_text_embedding (PStr ''a much longer input text'') large_client
          ''text-embedding-3-large'' \<lparr>world = (), calls = []\<rparr>) = Inr (replicate 3072 0) \<and>
   declared_dimensionality ''text-embedding-3-large'' = Some (length (replicate 3072 (0::real))) \<and>
   length (replicate 3072 (0::real)) = 3072"
proof -
  have pc: "provider_contract declared_dimensionality large_client"
    by (auto simp: provider_contract_def large_client_def declared_dimensionality_def split: if_splits)
  have ne: "''hi'' \<noteq> []" by simp
  have run: "get_text_embedding (PStr ''hi'') large_client ''text-embedding-3-large''
          \<lparr>world = (), calls = []\<rparr> =
        (Inr (replicate 3072 0),
         snd (get_text_embedding (PStr ''hi'') large_client ''text-embedding-3-large''
          \<lparr>world = (), calls = []\<rparr>))"
    by (simp add: get_text_embedding_def try_body_def large_client_def Let_def)
  have run2: "fst (get_text_embedding (PStr ''a much longer input text'') large_client
          ''text-embedding-3-large'' \<lparr>world = (), calls = []\<rparr>) = Inr (replicate 3072 0)"
    by (simp add: get_text_embedding_def try_body_def large_client_def Let_def)
  have run1: "fst (get_text_embedding (PStr ''hi'') large_client ''text-embedding-3-large''
          \<lparr>world = (), calls = []\<rparr>) = Inr (replicate 3072 0)"
    by (simp add: get_text_embedding_def try_body_def large_client_def Let_def)
  have d: "declared_dimensionality ''text-embedding-3-large'' = Some (length (replicate 3072 (0::real)))"
    using embedding_length_is_declared_dimensionality[OF pc ne run] by (rule conjunct1)
  have l: "length (replicate 3072 (0::real)) = 3072" by simp
  from pc run1 run2 d l show ?thesis by blast
qed

subsection \<open>C8: keys and values of the payload\<close>

text \<open>
  Claim C8. For every built point, the payload has exactly the keys text_id, title, source,
  authors, chunk and summary, in this order; chunk and summary are the values read from the
  record, which are the two texts that were passed to the Embedder; title, source and
  authors are the values read from the record (unchanged when present); text_id is the
  point's own identifier.
\<close>

theorem payload_keys_and_values:
  assumes "loop_body G item s = (Inr p, s')"
  shows "map fst (payload p) =
           [''text_id'', ''title'', ''source'', ''authors'', ''chunk'', ''summary''] \<and>
         map snd (payload p) =
           [PStr (point_id p), dict_get item ''title'', dict_get item ''source'',
            dict_get item ''authors'', dict_get item ''chunk'', dict_get item ''summary''] \<and>
         embed_texts (new_calls s s') = [dict_get item ''summary'', dict_get item ''chunk''] \<and>
         (\<forall>k v. k \<in> set [''title'', ''source'', ''authors'', ''chunk'', ''summary''] \<and>
                map_of item k = Some v \<longrightarrow> map_of (payload p) k = Some v)"
proof -
  from loop_body_Inr[OF assms] obtain a1 a2 where
    c: "calls s' = calls s @
       [Uuid4 (point_id p),
        EmbeddingsCreate (dict_get item ''summary'') default_model a1,
        EmbeddingsCreate (dict_get item ''chunk'') default_model a2]"
    by blast
  note pl = built_from_payload[OF loop_body_built_from[OF assms]]
  have e: "embed_texts (new_calls s s') = [dict_get item ''summary'', dict_get item ''chunk'']"
    using c by (simp add: new_calls_append)
  have m: "\<forall>k v. k \<in> set [''title'', ''source'', ''authors'', ''chunk'', ''summary''] \<and>
                map_of item k = Some v \<longrightarrow> map_of (payload p) k = Some v"
  proof (intro allI impI, elim conjE)
    fix k v
    assume k: "k \<in> set [''title'', ''source'', ''authors'', ''chunk'', ''summary'']"
      and v: "map_of item k = Some v"
    have "map_of (payload p) k = Some (dict_get item k)"
      using k by (auto simp: pl)
    then show "map_of (payload p) k = Some v"
      by (simp add: dict_get_present[OF v])
  qed
  have f: "map fst (payload p) =
           [''text_id'', ''title'', ''source'', ''authors'', ''chunk'', ''summary'']"
    by (simp add: pl)
  have g: "map snd (payload p) =
           [PStr (point_id p), dict_get item ''title'', dict_get item ''source'',
            dict_get item ''authors'', dict_get item ''chunk'', dict_get item ''summary'']"
    by (simp add: pl)
  from f g e m show ?thesis by blast
qed

text \<open>
  The theorem at the complete record.
\<close>

theorem payload_keys_and_values_witness:
  "fst (loop_body sim_globals record_full (sim_start [''u1''] [] COMPLETED)) =
     Inr (assembled ''u1'' record_full [18, 1] [8, 1]) \<and>
   map fst (payload (assembled ''u1'' record_full [18, 1] [8, 1])) =
     [''text_id'', ''title'', ''source'', ''authors'', ''chunk'', ''summary''] \<and>
   map snd (payload (assembled ''u1'' record_full [18, 1] [8, 1])) =
     [PStr ''u1'', PStr ''Decomposed Prompting'', PStr ''http://arxiv.org/pdf/2210.02406'',
      PList [PStr ''Tushar Khot'', PStr ''Harsh Trivedi''], PStr ''Figure 1'',
      PStr ''Few-shot prompting'']"
  using payload_keys_and_values
    [where G = sim_globals and item = record_full and s = "sim_start [''u1''] [] COMPLETED"
      and p = "assembled ''u1'' record_full [18, 1] [8, 1]"
      and s' = "snd (loop_body sim_globals record_full (sim_start [''u1''] [] COMPLETED))"]
  by (simp add: sim_defs assembled_def)

subsection \<open>C9: calls of the Embedder per record\<close>

text \<open>
  Claim C9, as the code has it. For a record that the loop processes, the Embedder is called
  once on the summary text and, only if that call returns an embedding, once on the chunk
  text, both with the default model. If both return, the point is built and its vector
  mapping holds the first embedding under \<open>summary\<close> and the second under \<open>chunk\<close>. If
  the first call fails, the chunk text is not embedded; in either failure no point is built.
\<close>

theorem embedder_calls_per_record:
  assumes "loop_body G item s = (r, s')"
  shows "(\<forall>p. r = Inr p \<longrightarrow>
            (\<exists>a1 a2 v1 v2.
               new_calls s s' =
                 [Uuid4 (point_id p),
                  EmbeddingsCreate (dict_get item ''summary'') default_model a1,
                  EmbeddingsCreate (dict_get item ''chunk'') default_model a2] \<and>
               try_body a1 = Inr v1 \<and> try_body a2 = Inr v2 \<and>
               vector p = [(''summary'', v1), (''chunk'', v2)])) \<and>
         (\<forall>e. r = Inl e \<longrightarrow>
            (\<exists>u a1.
               new_calls s s' =
                 [Uuid4 u, EmbeddingsCreate (dict_get item ''summary'') default_model a1] \<and>
               isl (try_body a1)) \<or>
            (\<exists>u a1 a2 v1.
               new_calls s s' =
                 [Uuid4 u,
                  EmbeddingsCreate (dict_get item ''summary'') default_model a1,
                  EmbeddingsCreate (dict_get item ''chunk'') default_model a2] \<and>
               try_body a1 = Inr v1 \<and> isl (try_body a2)))"
proof (cases r)
  case (Inl e)
  with assms have body: "loop_body G item s = (Inl e, s')" by simp
  from loop_body_Inl[OF body] obtain a1 a2 v1 where
    "(calls s' = calls s @
       [Uuid4 (fst (uuid4 G (world s))),
        EmbeddingsCreate (dict_get item ''summary'') default_model a1] \<and> isl (try_body a1))
   \<or> (calls s' = calls s @
       [Uuid4 (fst (uuid4 G (world s))),
        EmbeddingsCreate (dict_get item ''summary'') default_model a1,
        EmbeddingsCreate (dict_get item ''chunk'') default_model a2] \<and>
       try_body a1 = Inr v1 \<and> isl (try_body a2))"
    by blast
  then show ?thesis
  proof
    assume "calls s' = calls s @
       [Uuid4 (fst (uuid4 G (world s))),
        EmbeddingsCreate (dict_get item ''summary'') default_model a1] \<and> isl (try_body a1)"
    then have "new_calls s s' =
       [Uuid4 (fst (uuid4 G (world s))),
        EmbeddingsCreate (dict_get item ''summary'') default_model a1]" "isl (try_body a1)"
      by (simp_all add: new_calls_append)
    then show ?thesis using Inl by blast
  next
    assume "calls s' = calls s @
       [Uuid4 (fst (uuid4 G (world s))),
        EmbeddingsCreate (dict_get item ''summary'') default_model a1,
        EmbeddingsCreate (dict_get item ''chunk'') default_model a2] \<and>
       try_body a1 = Inr v1 \<and> isl (try_body a2)"
    then have "new_calls s s' =
       [Uuid4 (fst (uuid4 G (world s))),
        EmbeddingsCreate (dict_get item ''summary'') default_model a1,
        EmbeddingsCreate (dict_get item ''chunk'') default_model a2]"
      "try_body a1 = Inr v1" "isl (try_body a2)"
      by (simp_all add: new_calls_append)
    then show ?thesis using Inl by blast
  qed
next
  case (Inr p)
  with assms have body: "loop_body G item s = (Inr p, s')" by simp
  from loop_body_Inr[OF body] obtain a1 a2 v1 v2 where
    c: "calls s' = calls s @
       [Uuid4 (point_id p),
        EmbeddingsCreate (dict_get item ''summary'') default_model a1,
        EmbeddingsCreate (dict_get item ''chunk'') default_model a2]" and
    ok: "try_body a1 = Inr v1" "try_body a2 = Inr v2" and
    p: "p = assembled (point_id p) item v1 v2"
    by blast
  from arg_cong[OF p, of vector] have v: "vector p = [(''summary'', v1), (''chunk'', v2)]"
    by (simp add: assembled_def)
  have "new_calls s s' =
       [Uuid4 (point_id p),
        EmbeddingsCreate (dict_get item ''summary'') default_model a1,
        EmbeddingsCreate (dict_get item ''chunk'') default_model a2]"
    using c by (simp add: new_calls_append)
  with ok v show ?thesis using Inr by blast
qed

text \<open>
  The theorem at the complete record, in a world whose provider answers.
\<close>

theorem embedder_calls_per_record_witness:
  "new_calls (sim_start [''u1''] [] COMPLETED)
     (snd (loop_body sim_globals record_full (sim_start [''u1''] [] COMPLETED))) =
     [Uuid4 ''u1'',
      EmbeddingsCreate (PStr ''Few-shot prompting'') ''text-embedding-3-large'' (Inr [[18, 1]]),
      EmbeddingsCreate (PStr ''Figure 1'') ''text-embedding-3-large'' (Inr [[8, 1]])] \<and>
   map vector
     (upsert_batches
        (calls (snd (add_data_to_collection sim_globals [record_full] sim_qdrant
                       ''arxiv_chunks'' (sim_start [''u1''] [] COMPLETED)))) ! 0) =
     [[(''summary'', [18, 1]), (''chunk'', [8, 1])]]"
  using embedder_calls_per_record
    [where G = sim_globals and item = record_full and s = "sim_start [''u1''] [] COMPLETED",
     OF surjective_pairing]
  by (simp add: sim_defs)

text \<open>
  Claim C9 as stated fails: when the provider refuses the summary, the Embedder is called on
  the summary only; the chunk text of the record is never embedded.
\<close>

theorem embedder_calls_counterexample:
  "dict_get record_full ''chunk'' = PStr ''Figure 1'' \<and>
   fst (loop_body sim_globals record_full
          (sim_start [''u1''] [PStr ''Few-shot prompting''] COMPLETED)) =
     Inl (OpenAIError ''refused'') \<and>
   embed_texts
     (calls (snd (loop_body sim_globals record_full
                    (sim_start [''u1''] [PStr ''Few-shot prompting''] COMPLETED)))) =
     [PStr ''Few-shot prompting'']"
  by (simp add: sim_defs)

subsection \<open>C10: one upsert call per run\<close>

text \<open>
  Claim C10, as the code has it. If no embedding call of the run fails,
  \<^verbatim>\<open>add_data_to_collection\<close> issues exactly one upsert call, whose batch has one point
  per input record, in input order, each built from its record. If an embedding call
  fails, it issues no upsert call. For the empty input list it issues exactly one upsert
  call with the empty batch.
\<close>

theorem single_upsert_call:
  assumes "add_data_to_collection G data qc name s = (r, s')"
  shows "(\<not> list_ex embed_failed (new_calls s s') \<longrightarrow>
            (\<exists>ps. upsert_batches (new_calls s s') = [ps] \<and> list_all2 built_from data ps \<and>
                  length ps = length data)) \<and>
         (list_ex embed_failed (new_calls s s') \<longrightarrow> upsert_batches (new_calls s s') = []) \<and>
         (data = [] \<longrightarrow> upsert_batches (new_calls s s') = [[]])"
proof -
  from run_shape[OF assms] show ?thesis
  proof (elim disjE exE conjE)
    fix e cs
    assume f: "new_calls s s' = cs" "list_ex embed_failed cs" "upsert_batches cs = []"
    have "data = [] \<longrightarrow> upsert_batches (new_calls s s') = [[]]"
      using empty_run assms by blast
    with f show ?thesis by simp
  next
    fix ps cs rep
    assume nc: "new_calls s s' = cs @ Upsert name True ps rep # status_message rep"
      and built: "list_all2 built_from data ps"
      and quiet: "\<not> list_ex embed_failed cs" "upsert_batches cs = []"
    have no_fail: "\<not> list_ex embed_failed (new_calls s s')"
      using nc quiet quiet_status_message[of rep] by simp
    have batches: "upsert_batches (new_calls s s') = [ps]"
      using nc quiet quiet_status_message[of rep] by simp
    have len: "length ps = length data"
      using built by (simp add: list_all2_lengthD)
    from no_fail batches built len show ?thesis by auto
  qed
qed

text \<open>
  The theorem at the empty list and at a list of two records.
\<close>

theorem single_upsert_call_witness:
  "upsert_batches
     (new_calls (sim_start [] [] COMPLETED)
        (snd (add_data_to_collection sim_globals [] sim_qdrant ''arxiv_chunks''
                (sim_start [] [] COMPLETED)))) = [[]] \<and>
   upsert_batches
     (new_calls (sim_start [''u1'', ''u2''] [] COMPLETED)
        (snd (add_data_to_collection sim_globals [record_full, record_untitled] sim_qdrant
                ''arxiv_chunks'' (sim_start [''u1'', ''u2''] [] COMPLETED)))) =
     [[assembled ''u1'' record_full [18, 1] [8, 1],
       assembled ''u2'' record_untitled [18, 1] [8, 1]]]"
  using single_upsert_call
    [where G = sim_globals and data = "[]" and qc = sim_qdrant
      and name = "''arxiv_chunks''" and s = "sim_start [] [] COMPLETED",
     OF surjective_pairing]
    single_upsert_call
    [where G = sim_globals and data = "[record_full, record_untitled]" and qc = sim_qdrant
      and name = "''arxiv_chunks''" and s = "sim_start [''u1'', ''u2''] [] COMPLETED",
     OF surjective_pairing]
  by (simp add: sim_defs assembled_def)

text \<open>
  Claim C10 as stated fails: when the provider refuses the chunk of the only record, the
  run ends with the provider's exception and no upsert call is issued.
\<close>

theorem single_upsert_counterexample:
  "fst (add_data_to_collection sim_globals [record_full] sim_qdrant ''arxiv_chunks''
          (sim_start [''u1''] [PStr ''Figure 1''] COMPLETED)) = Inl (OpenAIError ''refused'') \<and>
   upsert_batches
     (calls (snd (add_data_to_collection sim_globals [record_full] sim_qdrant ''arxiv_chunks''
                    (sim_start [''u1''] [PStr ''Figure 1''] COMPLETED)))) = []"
  by (simp add: sim_defs)

end
